theory Spec2Isabelle
  imports Main
begin

section \<open>JavaScript values the model needs\<close>

text \<open>
  A value that the source throws. An \<open>Error\<close> carries its \<open>name\<close> and its \<open>message\<close>;
  a \<open>TypeError\<close> is what reading a property of \<open>undefined\<close> raises.
\<close>

datatype thrown = Error string string | TypeError string

text \<open>\<open>error instanceof Error ? error.message : 'Unknown error'\<close>; both kinds are Errors.\<close>

fun error_message :: "thrown \<Rightarrow> string" where
  "error_message (Error n m) = m"
| "error_message (TypeError m) = m"

text \<open>The template literal \<open>`${error}`\<close>: \<open>Error.prototype.toString\<close>.\<close>

fun error_toString :: "thrown \<Rightarrow> string" where
  "error_toString (Error n m) = n @ '': '' @ m"
| "error_toString (TypeError m) = ''TypeError: '' @ m"

text \<open>\<open>String.prototype.startsWith\<close>.\<close>

definition startsWith :: "string \<Rightarrow> string \<Rightarrow> bool" where
  "startsWith s p = (take (length p) s = p)"

text \<open>
  \<open>String.prototype.replace\<close> with a string pattern: only the first occurrence of the
  pattern, wherever it stands, is replaced.
\<close>

fun replace :: "string \<Rightarrow> string \<Rightarrow> string \<Rightarrow> string" where
  "replace [] pat rep = (if pat = [] then rep else [])"
| "replace (c # cs) pat rep =
     (if startsWith (c # cs) pat then rep @ drop (length pat) (c # cs)
      else c # replace cs pat rep)"

section \<open>The role and permission graph (TypeORM entities)\<close>

text \<open>
  \<open>Permission\<close>, \<open>Role\<close> and \<open>User\<close> of the NestJS/TypeORM stack. The back references
  (\<open>Permission.roles\<close>, \<open>Role.users\<close>) are read by no method and are left out; dates are
  numbers. A relation that was not loaded is \<open>undefined\<close> in the source (the entity's
  own \<open>addPermission\<close> tests for it), here \<open>None\<close>.
\<close>

record permission =
  p_id :: string
  p_name :: string
  p_description :: "string option"
  p_createdAt :: nat
  p_updatedAt :: nat

record role =
  r_id :: string
  r_name :: string
  r_description :: "string option"
  r_isActive :: bool
  r_priority :: int
  r_permissions :: "permission list option"
  r_createdAt :: nat
  r_updatedAt :: nat

record user =
  u_id :: string
  u_email :: string
  u_firstName :: string
  u_lastName :: string
  u_password :: "string option"
  u_phone :: "string option"
  u_avatar :: "string option"
  u_isVerified :: bool
  u_isActive :: bool
  u_lastLoginAt :: "nat option"
  u_verificationToken :: "string option"
  u_resetPasswordToken :: "string option"
  u_resetPasswordExpires :: "nat option"
  u_roles :: "role list option"
  u_createdAt :: nat
  u_updatedAt :: nat

text \<open>\<open>Role.hasPermission\<close>: \<open>this.permissions.some(permission => permission.name === permissionName)\<close>.\<close>

definition Role_hasPermission :: "role \<Rightarrow> string \<Rightarrow> thrown + bool" where
  "Role_hasPermission this permissionName =
     (case r_permissions this of
        None \<Rightarrow> Inl (TypeError ''Cannot read properties of undefined (reading 'some')'')
      | Some ps \<Rightarrow> Inr (list_ex (\<lambda>permission. p_name permission = permissionName) ps))"

text \<open>
  \<open>Role.addPermission\<close>: an absent collection becomes the empty one, then the permission
  is pushed unless \<open>find\<close> meets one with the same id.
\<close>

definition addPermission :: "role \<Rightarrow> permission \<Rightarrow> role" where
  "addPermission this permission =
     (let ps = (case r_permissions this of None \<Rightarrow> [] | Some ps \<Rightarrow> ps)
      in if find (\<lambda>p. p_id p = p_id permission) ps = None
         then this\<lparr>r_permissions := Some (ps @ [permission])\<rparr>
         else this\<lparr>r_permissions := Some ps\<rparr>)"

text \<open>\<open>Role.removePermission\<close>: a present collection is filtered, an absent one is left alone.\<close>

definition removePermission :: "role \<Rightarrow> string \<Rightarrow> role" where
  "removePermission this permissionId =
     (case r_permissions this of
        None \<Rightarrow> this
      | Some ps \<Rightarrow> this\<lparr>r_permissions := Some (filter (\<lambda>p. p_id p \<noteq> permissionId) ps)\<rparr>)"

text \<open>\<open>User.hasRole\<close>: \<open>this.roles.some(role => role.name === roleName)\<close>.\<close>

definition hasRole :: "user \<Rightarrow> string \<Rightarrow> thrown + bool" where
  "hasRole this roleName =
     (case u_roles this of
        None \<Rightarrow> Inl (TypeError ''Cannot read properties of undefined (reading 'some')'')
      | Some rs \<Rightarrow> Inr (list_ex (\<lambda>role. r_name role = roleName) rs))"

text \<open>
  \<open>User.hasPermission\<close>: the outer \<open>some\<close> walks the roles in order and stops at the first
  role whose permissions contain the name; a role met before that whose permissions
  are \<open>undefined\<close> raises.
\<close>

fun roles_some :: "role list \<Rightarrow> string \<Rightarrow> thrown + bool" where
  "roles_some [] permissionName = Inr False"
| "roles_some (role # rs) permissionName =
     (case r_permissions role of
        None \<Rightarrow> Inl (TypeError ''Cannot read properties of undefined (reading 'some')'')
      | Some ps \<Rightarrow>
          if list_ex (\<lambda>permission. p_name permission = permissionName) ps then Inr True
          else roles_some rs permissionName)"

definition hasPermission :: "user \<Rightarrow> string \<Rightarrow> thrown + bool" where
  "hasPermission this permissionName =
     (case u_roles this of
        None \<Rightarrow> Inl (TypeError ''Cannot read properties of undefined (reading 'some')'')
      | Some rs \<Rightarrow> roles_some rs permissionName)"

text \<open>
  The effective permission set as the specification words it: the names of the
  permissions of the identity's active roles.
\<close>

definition spec_effective_permissions :: "user \<Rightarrow> string set" where
  "spec_effective_permissions u =
     (case u_roles u of
        None \<Rightarrow> {}
      | Some rs \<Rightarrow>
          set (concat (map (\<lambda>r. case r_permissions r of None \<Rightarrow> [] | Some ps \<Rightarrow> map p_name ps)
                           (filter r_isActive rs))))"

text \<open>The names of the permissions of all attached roles, active or not.\<close>

definition attached_permissions :: "user \<Rightarrow> string set" where
  "attached_permissions u =
     (case u_roles u of
        None \<Rightarrow> {}
      | Some rs \<Rightarrow>
          set (concat (map (\<lambda>r. case r_permissions r of None \<Rightarrow> [] | Some ps \<Rightarrow> map p_name ps) rs)))"

text \<open>Every relation of the identity is loaded (the entities declare them \<open>eager\<close>).\<close>

definition relations_loaded :: "user \<Rightarrow> bool" where
  "relations_loaded u =
     (case u_roles u of None \<Rightarrow> False | Some rs \<Rightarrow> list_all (\<lambda>r. r_permissions r \<noteq> None) rs)"

text \<open>Sample entities.\<close>

definition perm_read :: permission where
  "perm_read = \<lparr>p_id = ''p1'', p_name = ''users:read'', p_description = None,
                 p_createdAt = 0, p_updatedAt = 0\<rparr>"

definition perm_write :: permission where
  "perm_write = \<lparr>p_id = ''p2'', p_name = ''users:write'', p_description = None,
                  p_createdAt = 0, p_updatedAt = 0\<rparr>"

definition role_of :: "string \<Rightarrow> bool \<Rightarrow> permission list \<Rightarrow> role" where
  "role_of n active ps = \<lparr>r_id = ''r1'', r_name = n, r_description = None, r_isActive = active,
                           r_priority = 0, r_permissions = Some ps, r_createdAt = 0,
                           r_updatedAt = 0\<rparr>"

definition user_with :: "string option \<Rightarrow> role list \<Rightarrow> user" where
  "user_with pw rs = \<lparr>u_id = ''u1'', u_email = ''a@b.c'', u_firstName = ''A'', u_lastName = ''B'',
                       u_password = pw, u_phone = None, u_avatar = None, u_isVerified = False,
                       u_isActive = True, u_lastLoginAt = None, u_verificationToken = None,
                       u_resetPasswordToken = None, u_resetPasswordExpires = None,
                       u_roles = Some rs, u_createdAt = 0, u_updatedAt = 0\<rparr>"

section \<open>Password hashing hook and serialisers\<close>

text \<open>
  \<open>User.hashPassword\<close>, run before insert and before update. \<open>bcrypt.hash\<close> belongs
  to the bcrypt package and is a parameter; the hook passes it 12 salt rounds. An
  \<open>undefined\<close> or empty password is falsy and skips the branch.
\<close>

definition hashPassword :: "(string \<Rightarrow> nat \<Rightarrow> string) \<Rightarrow> user \<Rightarrow> user" where
  "hashPassword bcrypt_hash this =
     (case u_password this of
        None \<Rightarrow> this
      | Some pw \<Rightarrow>
          if pw \<noteq> [] \<and> \<not> startsWith pw ''$2b$''
          then (let saltRounds = 12 in this\<lparr>u_password := Some (bcrypt_hash pw saltRounds)\<rparr>)
          else this)"

text \<open>
  A JavaScript object as the list of its own enumerable properties. Object rest
  destructuring \<open>const { k1, ..., kn, ...rest } = obj\<close> copies every property but the
  named ones.
\<close>

type_synonym 'v object = "(string \<times> 'v) list"

definition keys :: "'v object \<Rightarrow> string set" where
  "keys obj = set (map fst obj)"

definition rest_without :: "string list \<Rightarrow> 'v object \<Rightarrow> 'v object" where
  "rest_without ks obj = filter (\<lambda>kv. fst kv \<notin> set ks) obj"

text \<open>\<open>delete obj.k\<close>.\<close>

definition delete_property :: "string \<Rightarrow> 'v object \<Rightarrow> 'v object" where
  "delete_property k obj = filter (\<lambda>kv. fst kv \<noteq> k) obj"

text \<open>\<open>User.toJSON\<close> of the TypeORM entity.\<close>

definition User_toJSON :: "'v object \<Rightarrow> 'v object" where
  "User_toJSON this = rest_without [''password'', ''verificationToken'', ''resetPasswordToken''] this"

text \<open>The \<open>toJSON.transform\<close> option of the Mongoose \<open>userSchema\<close>.\<close>

definition userSchema_toJSON_transform :: "'d \<Rightarrow> 'v object \<Rightarrow> 'v object" where
  "userSchema_toJSON_transform doc ret = delete_property ''password'' ret"

text \<open>\<open>UserController.sanitizeUser\<close> of the NestJS controller.\<close>

definition sanitizeUser :: "'v object \<Rightarrow> 'v object" where
  "sanitizeUser user = rest_without [''passwordHash''] user"

section \<open>The Mongoose user collection and the Express user service\<close>

record notifications =
  n_email :: bool
  n_push :: bool
  n_sms :: bool

record privacy =
  pr_profileVisible :: bool
  pr_showEmail :: bool

record preferences =
  pf_notifications :: notifications
  pf_privacy :: privacy

text \<open>
  \<open>IUser\<close>. \<open>password\<close> is \<open>None\<close> in a document fetched with \<open>select('-password')\<close>.
\<close>

record user_doc =
  d_id :: string
  d_email :: string
  d_username :: string
  d_password :: "string option"
  d_firstName :: string
  d_lastName :: string
  d_avatar :: "string option"
  d_isVerified :: bool
  d_isActive :: bool
  d_role :: string
  d_createdAt :: nat
  d_updatedAt :: nat
  d_lastLoginAt :: "nat option"
  d_preferences :: preferences

text \<open>
  The collection behind the \<open>User\<close> model: the stored documents by \<open>_id\<close>, and the
  error, if any, that the driver raises for a query on an id (a cast failure, a lost
  connection). The id type is left open: the middleware passes \<open>decoded.id\<close> of an
  \<open>any\<close>-typed payload.
\<close>

record 'id collection =
  docs :: "'id \<Rightarrow> user_doc option"
  query_error :: "'id \<Rightarrow> thrown option"

definition findById :: "'id collection \<Rightarrow> 'id \<Rightarrow> thrown + user_doc option" where
  "findById coll i = (case query_error coll i of Some e \<Rightarrow> Inl e | None \<Rightarrow> Inr (docs coll i))"

definition select_minus_password :: "user_doc \<Rightarrow> user_doc" where
  "select_minus_password d = d\<lparr>d_password := None\<rparr>"

text \<open>
  \<open>User.findByIdAndUpdate(id, { $set: ... }, { new: true })\<close>: the update is applied to
  the stored document, and since the schema sets \<open>timestamps: true\<close> the store also
  refreshes \<open>updatedAt\<close> with the current time. The updated document is returned, or
  \<open>null\<close> when there is none.
\<close>

definition findByIdAndUpdate ::
  "'id collection \<Rightarrow> 'id \<Rightarrow> (user_doc \<Rightarrow> user_doc) \<Rightarrow> nat \<Rightarrow> thrown + (user_doc option \<times> 'id collection)"
where
  "findByIdAndUpdate coll i set_fields now =
     (case query_error coll i of
        Some e \<Rightarrow> Inl e
      | None \<Rightarrow>
          (case docs coll i of
             None \<Rightarrow> Inr (None, coll)
           | Some d \<Rightarrow>
               (let d' = (set_fields d)\<lparr>d_updatedAt := now\<rparr>
                in Inr (Some d', coll\<lparr>docs := (docs coll)(i := Some d')\<rparr>))))"

text \<open>\<open>UserService.getUserById\<close> (Express).\<close>

definition getUserById :: "'id collection \<Rightarrow> 'id \<Rightarrow> thrown + user_doc option" where
  "getUserById coll i =
     (case findById coll i of
        Inl error \<Rightarrow> Inl (Error ''Error'' (''Failed to get user: '' @ error_toString error))
      | Inr user \<Rightarrow> Inr (map_option select_minus_password user))"

text \<open>\<open>UserService.deleteUser\<close> (Express): the answer and the collection afterwards.\<close>

definition deleteUser :: "'id collection \<Rightarrow> 'id \<Rightarrow> nat \<Rightarrow> thrown + (bool \<times> 'id collection)" where
  "deleteUser coll i now =
     (case findByIdAndUpdate coll i (\<lambda>d. d\<lparr>d_isActive := False\<rparr>) now of
        Inl error \<Rightarrow> Inl (Error ''Error'' (''Failed to delete user: '' @ error_toString error))
      | Inr (result, coll') \<Rightarrow> Inr (result \<noteq> None, coll'))"

section \<open>The TypeORM user repository and the NestJS user service\<close>

text \<open>
  The \<open>User\<close> entity the NestJS service works on (\<open>passwordHash\<close>, \<open>name\<close>, one
  \<open>role\<close>, kept as the referenced role's id). It has no active flag. The repository is
  the table's rows.
\<close>

record nest_user =
  nu_id :: string
  nu_email :: string
  nu_passwordHash :: string
  nu_name :: string
  nu_role :: "string option"
  nu_createdAt :: nat
  nu_updatedAt :: nat

type_synonym repository = "nest_user list"

text \<open>\<open>userRepository.findOne({ where: { id } })\<close>.\<close>

definition findOne_by_id :: "repository \<Rightarrow> string \<Rightarrow> nest_user option" where
  "findOne_by_id repo i = find (\<lambda>u. nu_id u = i) repo"

text \<open>\<open>userRepository.remove(user)\<close>: the row with the entity's primary key is deleted.\<close>

definition remove_entity :: "repository \<Rightarrow> nest_user \<Rightarrow> repository" where
  "remove_entity repo user = filter (\<lambda>u. nu_id u \<noteq> nu_id user) repo"

definition nest_getUserById :: "repository \<Rightarrow> string \<Rightarrow> thrown + nest_user" where
  "nest_getUserById repo i =
     (case findOne_by_id repo i of
        None \<Rightarrow> Inl (Error ''NotFoundException'' ''User not found'')
      | Some user \<Rightarrow> Inr user)"

definition nest_deleteUser :: "repository \<Rightarrow> string \<Rightarrow> thrown + repository" where
  "nest_deleteUser repo i =
     (case nest_getUserById repo i of
        Inl e \<Rightarrow> Inl e
      | Inr user \<Rightarrow> Inr (remove_entity repo user))"

section \<open>Authentication and admin middleware\<close>

text \<open>\<open>AuthRequest.user\<close>, and the part of the request the middleware reads and writes.\<close>

record auth_user =
  au_id :: string
  au_email :: string
  au_role :: string

record auth_request =
  authorization :: "string option"
  req_user :: "auth_user option"

text \<open>What \<open>res.status(n).json(body)\<close> sends.\<close>

record api_response =
  status :: nat
  success :: bool
  message :: string
  errors :: "string list option"

text \<open>
  What one run of the authentication middleware does: the response it sends, if any,
  whether it calls \<open>next\<close>, the request as it leaves it, and the ids it asked the user
  service for, in order.
\<close>

record 'id auth_run =
  response :: "api_response option"
  next_called :: bool
  request :: auth_request
  lookups :: "'id list"

text \<open>\<open>req.header('Authorization')?.replace('Bearer ', '')\<close>.\<close>

definition token_of :: "auth_request \<Rightarrow> string option" where
  "token_of req = map_option (\<lambda>h. replace h ''Bearer '' []) (authorization req)"

text \<open>The \<open>catch\<close> block of \<open>authMiddleware\<close>.\<close>

definition auth_catch :: "auth_request \<Rightarrow> 'id list \<Rightarrow> thrown \<Rightarrow> 'id auth_run" where
  "auth_catch req asked error =
     \<lparr>response = Some \<lparr>status = 401, success = False, message = ''Invalid token.'',
                        errors = Some [error_message error]\<rparr>,
      next_called = False, request = req, lookups = asked\<rparr>"

text \<open>
  \<open>authMiddleware\<close>. \<open>env\<close> is \<open>process.env\<close>; \<open>jwt_verify\<close> stands for \<open>jwt.verify\<close>
  of the jsonwebtoken package followed by reading \<open>.id\<close> of the payload: it raises or
  yields the id.
\<close>

definition authMiddleware ::
  "(string \<Rightarrow> string option) \<Rightarrow> (string \<Rightarrow> string \<Rightarrow> thrown + 'id) \<Rightarrow> 'id collection \<Rightarrow>
   auth_request \<Rightarrow> 'id auth_run"
where
  "authMiddleware env jwt_verify coll req =
     (case token_of req of
        None \<Rightarrow>
          \<lparr>response = Some \<lparr>status = 401, success = False,
                             message = ''Access denied. No token provided.'', errors = None\<rparr>,
           next_called = False, request = req, lookups = []\<rparr>
      | Some token \<Rightarrow>
          if token = [] then
            \<lparr>response = Some \<lparr>status = 401, success = False,
                               message = ''Access denied. No token provided.'', errors = None\<rparr>,
             next_called = False, request = req, lookups = []\<rparr>
          else
            (case env ''JWT_SECRET'' of
               None \<Rightarrow> auth_catch req [] (Error ''Error'' ''JWT_SECRET is not defined'')
             | Some jwtSecret \<Rightarrow>
                 if jwtSecret = [] then auth_catch req [] (Error ''Error'' ''JWT_SECRET is not defined'')
                 else
                   (case jwt_verify token jwtSecret of
                      Inl error \<Rightarrow> auth_catch req [] error
                    | Inr decoded_id \<Rightarrow>
                        (case getUserById coll decoded_id of
                           Inl error \<Rightarrow> auth_catch req [decoded_id] error
                         | Inr None \<Rightarrow>
                             \<lparr>response = Some \<lparr>status = 401, success = False,
                                                message = ''Invalid token or user not found.'',
                                                errors = None\<rparr>,
                              next_called = False, request = req, lookups = [decoded_id]\<rparr>
                         | Inr (Some user) \<Rightarrow>
                             if \<not> d_isActive user then
                               \<lparr>response = Some \<lparr>status = 401, success = False,
                                                  message = ''Invalid token or user not found.'',
                                                  errors = None\<rparr>,
                                next_called = False, request = req, lookups = [decoded_id]\<rparr>
                             else
                               \<lparr>response = None, next_called = True,
                                request = req\<lparr>req_user := Some \<lparr>au_id = d_id user,
                                                                  au_email = d_email user,
                                                                  au_role = d_role user\<rparr>\<rparr>,
                                lookups = [decoded_id]\<rparr>))))"

text \<open>
  \<open>adminMiddleware\<close>: either a response or the call of \<open>next\<close>. Nothing inside its
  \<open>try\<close> raises, so the 500 answer of its \<open>catch\<close> is never sent.
\<close>

datatype gate = Responded api_response | Next

definition adminMiddleware :: "auth_request \<Rightarrow> gate" where
  "adminMiddleware req =
     (case req_user req of
        None \<Rightarrow> Responded \<lparr>status = 401, success = False,
                             message = ''Authentication required.'', errors = None\<rparr>
      | Some u \<Rightarrow>
          if au_role u \<noteq> ''admin'' \<and> au_role u \<noteq> ''moderator''
          then Responded \<lparr>status = 403, success = False,
                           message = ''Access denied. Admin privileges required.'', errors = None\<rparr>
          else Next)"

text \<open>Sample inputs: a verifier that accepts one token, and a collection of two users.\<close>

definition sample_verify :: "string \<Rightarrow> string \<Rightarrow> thrown + string" where
  "sample_verify token secret =
     (if token = ''tok-ann'' \<and> secret = ''s3cret'' then Inr ''ann''
      else if token = ''tok-bob'' \<and> secret = ''s3cret'' then Inr ''bob''
      else Inl (Error ''JsonWebTokenError'' ''invalid signature''))"

definition sample_doc :: "string \<Rightarrow> bool \<Rightarrow> string \<Rightarrow> user_doc" where
  "sample_doc n active r =
     \<lparr>d_id = n, d_email = n @ ''@example.com'', d_username = n, d_password = Some ''$2b$12$hash'',
      d_firstName = n, d_lastName = ''Doe'', d_avatar = None, d_isVerified = False,
      d_isActive = active, d_role = r, d_createdAt = 1, d_updatedAt = 1, d_lastLoginAt = None,
      d_preferences = \<lparr>pf_notifications = \<lparr>n_email = True, n_push = True, n_sms = False\<rparr>,
                        pf_privacy = \<lparr>pr_profileVisible = True, pr_showEmail = False\<rparr>\<rparr>\<rparr>"

definition sample_collection :: "string collection" where
  "sample_collection =
     \<lparr>docs = (\<lambda>i. if i = ''ann'' then Some (sample_doc ''ann'' True ''admin'')
                    else if i = ''bob'' then Some (sample_doc ''bob'' False ''user'')
                    else None),
      query_error = (\<lambda>i. None)\<rparr>"

definition empty_collection :: "string collection" where
  "empty_collection = \<lparr>docs = (\<lambda>i. None), query_error = (\<lambda>i. None)\<rparr>"

definition sample_env :: "string \<Rightarrow> string option" where
  "sample_env k = (if k = ''JWT_SECRET'' then Some ''s3cret'' else None)"

definition no_env :: "string \<Rightarrow> string option" where
  "no_env k = None"

definition sample_nest_user :: nest_user where
  "sample_nest_user = \<lparr>nu_id = ''7'', nu_email = ''test@example.com'', nu_passwordHash = ''$2b$10$h'',
                        nu_name = ''Test User'', nu_role = None, nu_createdAt = 1, nu_updatedAt = 1\<rparr>"

text \<open>A stand-in for \<open>bcrypt.hash\<close> with the output format of the package.\<close>

definition sample_hash :: "string \<Rightarrow> nat \<Rightarrow> string" where
  "sample_hash pw rounds = ''$2b$12$'' @ rev pw"

section \<open>Auxiliary facts\<close>

lemma list_ex_name: "list_ex (\<lambda>x. f x = n) xs \<longleftrightarrow> n \<in> set (map f xs)"
  by (induction xs) auto

lemma roles_some_loaded:
  "list_all (\<lambda>r. r_permissions r \<noteq> None) rs \<Longrightarrow>
   roles_some rs n =
     Inr (n \<in> set (concat (map (\<lambda>r. case r_permissions r of None \<Rightarrow> [] | Some ps \<Rightarrow> map p_name ps) rs)))"
  by (induction rs) (auto simp: list_ex_name split: option.splits)

lemma roles_some_True:
  "roles_some rs n = Inr True \<Longrightarrow>
   n \<in> set (concat (map (\<lambda>r. case r_permissions r of None \<Rightarrow> [] | Some ps \<Rightarrow> map p_name ps) rs))"
  by (induction rs) (auto simp: list_ex_name split: option.splits if_splits)

lemma find_id_None: "find (\<lambda>q. p_id q = k) ps = None \<longleftrightarrow> k \<notin> set (map p_id ps)"
  by (induction ps) auto

lemma addPermission_present:
  "r_permissions r = Some ps \<Longrightarrow> p_id p \<in> set (map p_id ps) \<Longrightarrow> addPermission r p = r"
  by (simp add: addPermission_def find_id_None)

lemma removePermission_absent:
  assumes "r_permissions r = Some ps" and "i \<notin> set (map p_id ps)"
  shows "removePermission r i = r"
proof -
  from assms(2) have "filter (\<lambda>p. p_id p \<noteq> i) ps = ps"
    by (induction ps) auto
  with assms(1) show ?thesis by (simp add: removePermission_def)
qed

lemma addPermission_contains:
  "\<exists>ps. r_permissions (addPermission r p) = Some ps \<and> p_id p \<in> set (map p_id ps)"
  by (cases "r_permissions r") (auto simp: addPermission_def Let_def find_id_None)

lemma addPermission_twice: "addPermission (addPermission r p) p = addPermission r p"
proof -
  obtain ps where "r_permissions (addPermission r p) = Some ps" "p_id p \<in> set (map p_id ps)"
    using addPermission_contains by blast
  then show ?thesis by (rule addPermission_present)
qed

lemma removePermission_twice: "removePermission (removePermission r i) i = removePermission r i"
  by (cases "r_permissions r") (simp_all add: removePermission_def)

lemma startsWith_drop_empty:
  assumes "startsWith h pat"
  shows "drop (length pat) h = [] \<longleftrightarrow> h = pat"
proof -
  have "h = take (length pat) h @ drop (length pat) h" by simp
  with assms have "h = pat @ drop (length pat) h" by (simp add: startsWith_def)
  then show ?thesis by (metis append_Nil2 append_eq_conv_conj)
qed

lemma replace_bearer_empty: "replace h ''Bearer '' [] = [] \<longleftrightarrow> h = [] \<or> h = ''Bearer ''"
proof (cases h)
  case Nil
  then show ?thesis by simp
next
  case (Cons c cs)
  show ?thesis
  proof (cases "startsWith (c # cs) ''Bearer ''")
    case True
    from startsWith_drop_empty [OF True] True Cons show ?thesis by simp
  next
    case False
    then have "c # cs \<noteq> ''Bearer ''" by (auto simp: startsWith_def)
    with Cons False show ?thesis by simp
  qed
qed

text \<open>The headers that yield no token: none, the empty one, and a bare \<open>Bearer \<close>.\<close>

lemma no_token_iff:
  "(token_of req = None \<or> token_of req = Some []) \<longleftrightarrow>
   (authorization req = None \<or> authorization req = Some [] \<or> authorization req = Some ''Bearer '')"
  by (cases "authorization req") (auto simp: token_of_def replace_bearer_empty)

lemma findOne_by_id_Some: "findOne_by_id repo k = Some u \<Longrightarrow> nu_id u = k"
  by (auto simp: findOne_by_id_def find_Some_iff)

lemma findOne_by_id_None: "findOne_by_id repo k = None \<longleftrightarrow> k \<notin> set (map nu_id repo)"
  by (auto simp: findOne_by_id_def find_None_iff)

lemma nest_deleteUser_removes:
  assumes "k \<in> set (map nu_id repo)"
  shows "nest_deleteUser repo k = Inr (filter (\<lambda>u. nu_id u \<noteq> k) repo)"
proof -
  from assms obtain u where u: "findOne_by_id repo k = Some u"
    using findOne_by_id_None [of repo k] by auto
  then have "nu_id u = k" by (rule findOne_by_id_Some)
  with u show ?thesis by (simp add: nest_deleteUser_def nest_getUserById_def remove_entity_def)
qed

text \<open>The serialisers keep every property they are not told to drop.\<close>

lemma serialisers_keep_the_rest:
  "keys (userSchema_toJSON_transform doc ret) = keys ret - {''password''}"
  "keys (User_toJSON this) = keys this - {''password'', ''verificationToken'', ''resetPasswordToken''}"
  "keys (sanitizeUser user) = keys user - {''passwordHash''}"
  by (auto simp: keys_def userSchema_toJSON_transform_def User_toJSON_def sanitizeUser_def
      delete_property_def rest_without_def)

text \<open>The authentication middleware calls \<open>next\<close> only for a stored, active user.\<close>

lemma authMiddleware_next_only_active:
  "next_called (authMiddleware env jwt_verify coll req) \<Longrightarrow>
   \<exists>i d. lookups (authMiddleware env jwt_verify coll req) = [i] \<and> docs coll i = Some d \<and> d_isActive d"
  by (auto simp: authMiddleware_def auth_catch_def getUserById_def findById_def
      select_minus_password_def split: option.splits sum.splits if_splits)

section \<open>Authentication\<close>

text \<open>
  C1. When the token is accepted by the verifier under the configured secret and the
  store holds, for the id it carries, a user with \<open>isActive = false\<close>, the
  authentication middleware answers 401, does not call \<open>next\<close> and leaves the request
  as it was, so no identity is attached; when the store answers the lookup, the
  message is that of the inactive-user branch.
\<close>

theorem authMiddleware_rejects_inactive:
  assumes "token_of req = Some token" and "token \<noteq> []"
    and "env ''JWT_SECRET'' = Some secret" and "secret \<noteq> []"
    and "jwt_verify token secret = Inr i"
    and "docs coll i = Some d" and "\<not> d_isActive d"
  shows "(\<exists>r. response (authMiddleware env jwt_verify coll req) = Some r \<and> status r = 401)
    \<and> \<not> next_called (authMiddleware env jwt_verify coll req)
    \<and> request (authMiddleware env jwt_verify coll req) = req
    \<and> (query_error coll i = None \<longrightarrow>
         response (authMiddleware env jwt_verify coll req) =
           Some \<lparr>status = 401, success = False, message = ''Invalid token or user not found.'',
                 errors = None\<rparr>)"
  using assms
  by (cases "query_error coll i")
     (simp_all add: authMiddleware_def getUserById_def findById_def auth_catch_def
        select_minus_password_def)

theorem authMiddleware_rejects_inactive_witness:
  "response (authMiddleware sample_env sample_verify sample_collection
      \<lparr>authorization = Some ''Bearer tok-bob'', req_user = None\<rparr>)
     = Some \<lparr>status = 401, success = False, message = ''Invalid token or user not found.'',
             errors = None\<rparr>
   \<and> request (authMiddleware sample_env sample_verify sample_collection
      \<lparr>authorization = Some ''Bearer tok-bob'', req_user = None\<rparr>)
     = \<lparr>authorization = Some ''Bearer tok-bob'', req_user = None\<rparr>"
proof -
  let ?req = "\<lparr>authorization = Some ''Bearer tok-bob'', req_user = None\<rparr>"
  have 1: "token_of ?req = Some ''tok-bob''" by (simp add: token_of_def startsWith_def)
  have 2: "''tok-bob'' \<noteq> []" by simp
  have 3: "sample_env ''JWT_SECRET'' = Some ''s3cret''" by (simp add: sample_env_def)
  have 4: "''s3cret'' \<noteq> []" by simp
  have 5: "sample_verify ''tok-bob'' ''s3cret'' = Inr ''bob''" by (simp add: sample_verify_def)
  have 6: "docs sample_collection ''bob'' = Some (sample_doc ''bob'' False ''user'')"
    by (simp add: sample_collection_def)
  have 7: "\<not> d_isActive (sample_doc ''bob'' False ''user'')" by (simp add: sample_doc_def)
  have 8: "query_error sample_collection ''bob'' = None" by (simp add: sample_collection_def)
  from authMiddleware_rejects_inactive [where req = ?req and env = sample_env
      and jwt_verify = sample_verify and coll = sample_collection, OF 1 2 3 4 5 6 7] 8
  show ?thesis by simp
qed

text \<open>
  C6, as stated: under a missing secret no request is answered with a per-request 401.
  The middleware does answer so: with \<open>JWT_SECRET\<close> unset, a request carrying a token
  gets 401 with the message \<open>Invalid token.\<close>
\<close>

theorem authMiddleware_missing_secret_counterexample:
  "response (authMiddleware no_env sample_verify sample_collection
      \<lparr>authorization = Some ''Bearer tok-ann'', req_user = None\<rparr>)
   = Some \<lparr>status = 401, success = False, message = ''Invalid token.'',
           errors = Some [''JWT_SECRET is not defined'']\<rparr>"
  by (simp add: authMiddleware_def token_of_def startsWith_def no_env_def auth_catch_def)

text \<open>
  C6, amended. When \<open>JWT_SECRET\<close> is unset or empty the middleware handles it within
  the request: every request is answered 401, \<open>next\<close> is not called, the request is
  left as it was and the user service is not asked; a request that carries a token gets
  the message \<open>Invalid token.\<close> with the error text \<open>JWT_SECRET is not defined\<close>.
\<close>

theorem authMiddleware_missing_secret:
  "env ''JWT_SECRET'' = None \<or> env ''JWT_SECRET'' = Some [] \<Longrightarrow>
   (\<exists>r. response (authMiddleware env jwt_verify coll req) = Some r \<and> status r = 401)
   \<and> \<not> next_called (authMiddleware env jwt_verify coll req)
   \<and> request (authMiddleware env jwt_verify coll req) = req
   \<and> lookups (authMiddleware env jwt_verify coll req) = []
   \<and> (token_of req = Some token \<and> token \<noteq> [] \<longrightarrow>
        response (authMiddleware env jwt_verify coll req) =
          Some \<lparr>status = 401, success = False, message = ''Invalid token.'',
                errors = Some [''JWT_SECRET is not defined'']\<rparr>)"
  by (cases "token_of req") (auto simp: authMiddleware_def auth_catch_def)

theorem authMiddleware_missing_secret_witness:
  "no_env ''JWT_SECRET'' = None
   \<and> response (authMiddleware no_env sample_verify sample_collection
      \<lparr>authorization = Some ''Bearer tok-ann'', req_user = None\<rparr>)
      = Some \<lparr>status = 401, success = False, message = ''Invalid token.'',
           errors = Some [''JWT_SECRET is not defined'']\<rparr>
   \<and> lookups (authMiddleware no_env sample_verify sample_collection
      \<lparr>authorization = Some ''Bearer tok-ann'', req_user = None\<rparr>) = []"
  using authMiddleware_missing_secret [where env = no_env
     and req = "\<lparr>authorization = Some ''Bearer tok-ann'', req_user = None\<rparr>"
     and token = "''tok-ann''" and jwt_verify = sample_verify and coll = sample_collection]
  by (simp add: no_env_def token_of_def startsWith_def)

text \<open>
  C7. When the \<open>Authorization\<close> header yields no token (it is absent, or what is left
  of it after the replacement is empty), the middleware's whole run is the 401 answer
  \<open>Access denied. No token provided.\<close>: it is the same for any two collections, and
  the user service is asked for no id.
\<close>

theorem authMiddleware_no_token:
  "token_of req = None \<or> token_of req = Some [] \<Longrightarrow>
   authMiddleware env jwt_verify coll req =
     \<lparr>response = Some \<lparr>status = 401, success = False,
                        message = ''Access denied. No token provided.'', errors = None\<rparr>,
      next_called = False, request = req, lookups = []\<rparr>
   \<and> authMiddleware env jwt_verify coll req = authMiddleware env jwt_verify coll' req
   \<and> lookups (authMiddleware env jwt_verify coll req) = []"
  by (auto simp: authMiddleware_def)

theorem authMiddleware_no_token_witness:
  "authMiddleware sample_env sample_verify sample_collection
     \<lparr>authorization = Some ''Bearer '', req_user = None\<rparr>
   = authMiddleware sample_env sample_verify empty_collection
     \<lparr>authorization = Some ''Bearer '', req_user = None\<rparr>
   \<and> lookups (authMiddleware sample_env sample_verify sample_collection
        \<lparr>authorization = Some ''Bearer '', req_user = None\<rparr>) = []"
proof -
  let ?req = "\<lparr>authorization = Some ''Bearer '', req_user = None\<rparr>"
  have h: "token_of ?req = None \<or> token_of ?req = Some []"
    by (simp add: token_of_def startsWith_def)
  from authMiddleware_no_token [OF h, where coll = sample_collection and coll' = empty_collection]
  show ?thesis by blast
qed

section \<open>Authorisation\<close>

text \<open>
  C3. The admin gate decides by three cases that cover every request: with no identity
  attached it answers 401; with an identity whose role is neither \<open>admin\<close> nor
  \<open>moderator\<close> it answers 403; with an identity whose role is \<open>admin\<close> or
  \<open>moderator\<close> it calls \<open>next\<close>. The decision reads nothing but the attached role
  name: two requests that agree on it are decided alike.
\<close>

theorem adminMiddleware_cases:
  "(req_user req = None \<longrightarrow>
      adminMiddleware req = Responded \<lparr>status = 401, success = False,
        message = ''Authentication required.'', errors = None\<rparr>)
   \<and> (req_user req = Some u \<and> au_role u \<noteq> ''admin'' \<and> au_role u \<noteq> ''moderator'' \<longrightarrow>
      adminMiddleware req = Responded \<lparr>status = 403, success = False,
        message = ''Access denied. Admin privileges required.'', errors = None\<rparr>)
   \<and> (req_user req = Some u \<and> (au_role u = ''admin'' \<or> au_role u = ''moderator'') \<longrightarrow>
      adminMiddleware req = Next)
   \<and> (map_option au_role (req_user req) = map_option au_role (req_user req') \<longrightarrow>
      adminMiddleware req = adminMiddleware req')"
  by (cases "req_user req"; cases "req_user req'") (auto simp: adminMiddleware_def)

theorem adminMiddleware_cases_witness:
  "adminMiddleware \<lparr>authorization = None, req_user = None\<rparr>
     = Responded \<lparr>status = 401, success = False, message = ''Authentication required.'',
                  errors = None\<rparr>
   \<and> adminMiddleware \<lparr>authorization = None,
        req_user = Some \<lparr>au_id = ''1'', au_email = ''a@b.c'', au_role = ''user''\<rparr>\<rparr>
     = Responded \<lparr>status = 403, success = False,
        message = ''Access denied. Admin privileges required.'', errors = None\<rparr>
   \<and> adminMiddleware \<lparr>authorization = None,
        req_user = Some \<lparr>au_id = ''1'', au_email = ''a@b.c'', au_role = ''moderator''\<rparr>\<rparr> = Next
   \<and> adminMiddleware \<lparr>authorization = Some ''x'',
        req_user = Some \<lparr>au_id = ''2'', au_email = ''d@e.f'', au_role = ''admin''\<rparr>\<rparr> = Next"
  using adminMiddleware_cases [where req = "\<lparr>authorization = None, req_user = None\<rparr>"
        and req' = "\<lparr>authorization = None, req_user = None\<rparr>"
        and u = "\<lparr>au_id = ''1'', au_email = ''a@b.c'', au_role = ''user''\<rparr>"]
    adminMiddleware_cases [where req = "\<lparr>authorization = None,
        req_user = Some \<lparr>au_id = ''1'', au_email = ''a@b.c'', au_role = ''user''\<rparr>\<rparr>"
        and req' = "\<lparr>authorization = None, req_user = None\<rparr>"
        and u = "\<lparr>au_id = ''1'', au_email = ''a@b.c'', au_role = ''user''\<rparr>"]
    adminMiddleware_cases [where req = "\<lparr>authorization = None,
        req_user = Some \<lparr>au_id = ''1'', au_email = ''a@b.c'', au_role = ''moderator''\<rparr>\<rparr>"
        and req' = "\<lparr>authorization = None, req_user = None\<rparr>"
        and u = "\<lparr>au_id = ''1'', au_email = ''a@b.c'', au_role = ''moderator''\<rparr>"]
    adminMiddleware_cases [where req = "\<lparr>authorization = Some ''x'',
        req_user = Some \<lparr>au_id = ''2'', au_email = ''d@e.f'', au_role = ''admin''\<rparr>\<rparr>"
        and req' = "\<lparr>authorization = None,
        req_user = Some \<lparr>au_id = ''1'', au_email = ''a@b.c'', au_role = ''admin''\<rparr>\<rparr>"
        and u = "\<lparr>au_id = ''2'', au_email = ''d@e.f'', au_role = ''admin''\<rparr>"]
  by simp

section \<open>Role membership and permissions\<close>

text \<open>
  C4. \<open>hasRole(name)\<close> returns true exactly when the identity has a role collection
  and one of its roles is named \<open>name\<close>, compared as strings character by character;
  for an identity whose only role is named \<open>Admin\<close>, \<open>hasRole("admin")\<close> returns false.
\<close>

theorem hasRole_exact:
  "(hasRole u n = Inr True \<longleftrightarrow> (\<exists>rs. u_roles u = Some rs \<and> n \<in> set (map r_name rs)))
   \<and> (u_roles u = Some rs \<longrightarrow> hasRole u n = Inr (n \<in> set (map r_name rs)))
   \<and> (u_roles u = Some [r] \<and> r_name r = ''Admin'' \<longrightarrow> hasRole u ''admin'' = Inr False)"
  by (auto simp: hasRole_def list_ex_name split: option.splits)

theorem hasRole_exact_witness:
  "hasRole (user_with None [role_of ''user'' True [], role_of ''admin'' True []]) ''admin'' = Inr True
   \<and> hasRole (user_with None [role_of ''Admin'' True []]) ''admin'' = Inr False"
  using hasRole_exact [where u = "user_with None [role_of ''user'' True [], role_of ''admin'' True []]"
      and n = "''admin''" and rs = "[role_of ''user'' True [], role_of ''admin'' True []]"
      and r = "role_of ''Admin'' True []"]
    hasRole_exact [where u = "user_with None [role_of ''Admin'' True []]"
      and n = "''admin''" and rs = "[role_of ''Admin'' True []]"
      and r = "role_of ''Admin'' True []"]
  by (simp add: user_with_def role_of_def)

text \<open>
  C2, as stated: \<open>hasPermission(p)\<close> is true only for the permissions of active roles.
  An identity whose single role is inactive and holds \<open>users:write\<close> is granted
  \<open>users:write\<close>, which is not among the permissions of its active roles.
\<close>

theorem hasPermission_inactive_role_counterexample:
  "hasPermission (user_with None [role_of ''editor'' False [perm_write]]) ''users:write'' = Inr True
   \<and> ''users:write'' \<notin> spec_effective_permissions (user_with None [role_of ''editor'' False [perm_write]])"
  by (simp add: hasPermission_def user_with_def role_of_def perm_write_def
      spec_effective_permissions_def)

text \<open>
  C2, amended. For an identity whose roles and their permissions are loaded,
  \<open>hasPermission(p)\<close> returns true iff \<open>p\<close> names a permission of some attached role,
  whether that role is active or not; whenever it returns true, \<open>p\<close> names such a
  permission; and \<open>Role.hasPermission(p)\<close> on loaded permissions returns whether one
  of them is named \<open>p\<close>.
\<close>

theorem hasPermission_attached_roles:
  "(relations_loaded u \<longrightarrow> hasPermission u p = Inr (p \<in> attached_permissions u))
   \<and> (hasPermission u p = Inr True \<longrightarrow> p \<in> attached_permissions u)
   \<and> (r_permissions r = Some ps \<longrightarrow> Role_hasPermission r p = Inr (p \<in> set (map p_name ps)))"
  by (auto simp: relations_loaded_def hasPermission_def attached_permissions_def
      roles_some_loaded Role_hasPermission_def list_ex_name
      dest: roles_some_True split: option.splits)

theorem hasPermission_attached_roles_witness:
  "relations_loaded (user_with None [role_of ''viewer'' True [perm_read], role_of ''editor'' False [perm_write]])
   \<and> hasPermission (user_with None [role_of ''viewer'' True [perm_read], role_of ''editor'' False [perm_write]])
        ''users:write'' = Inr True
   \<and> ''users:write'' \<in> attached_permissions
        (user_with None [role_of ''viewer'' True [perm_read], role_of ''editor'' False [perm_write]])
   \<and> Role_hasPermission (role_of ''viewer'' True [perm_read]) ''users:write'' = Inr False"
  using hasPermission_attached_roles [where
      u = "user_with None [role_of ''viewer'' True [perm_read], role_of ''editor'' False [perm_write]]"
      and p = "''users:write''" and r = "role_of ''viewer'' True [perm_read]" and ps = "[perm_read]"]
  by (simp add: relations_loaded_def user_with_def role_of_def attached_permissions_def
      perm_read_def perm_write_def)

text \<open>
  C5. Adding a permission whose id is already in the role's collection leaves the role
  unchanged; removing an id that is not in the collection (or from a role with no
  collection) leaves the role unchanged; adding the same permission twice equals
  adding it once, and removing the same id twice equals removing it once.
\<close>

theorem permission_mutation_idempotent:
  "(r_permissions r = Some ps \<and> p_id p \<in> set (map p_id ps) \<longrightarrow> addPermission r p = r)
   \<and> (r_permissions r = Some ps \<and> i \<notin> set (map p_id ps) \<longrightarrow> removePermission r i = r)
   \<and> (r_permissions r = None \<longrightarrow> removePermission r i = r)
   \<and> addPermission (addPermission r p) p = addPermission r p
   \<and> removePermission (removePermission r i) i = removePermission r i"
  using addPermission_present [of r ps p] removePermission_absent [of r ps i]
    addPermission_twice [of r p] removePermission_twice [of r i]
  by (simp add: removePermission_def)

theorem permission_mutation_idempotent_witness:
  "addPermission (role_of ''editor'' True [perm_read, perm_write]) perm_write
     = role_of ''editor'' True [perm_read, perm_write]
   \<and> removePermission (role_of ''editor'' True [perm_read]) ''p2'' = role_of ''editor'' True [perm_read]
   \<and> addPermission (addPermission (role_of ''editor'' True [perm_read]) perm_write) perm_write
     = role_of ''editor'' True [perm_read, perm_write]
   \<and> removePermission (removePermission (role_of ''editor'' True [perm_read, perm_write]) ''p1'') ''p1''
     = role_of ''editor'' True [perm_write]"
  using permission_mutation_idempotent [of "role_of ''editor'' True [perm_read, perm_write]"
      "[perm_read, perm_write]" perm_write "''p1''"]
    permission_mutation_idempotent [of "role_of ''editor'' True [perm_read]"
      "[perm_read]" perm_write "''p2''"]
  by (simp add: role_of_def perm_read_def perm_write_def addPermission_def removePermission_def)

section \<open>Deleting a user\<close>

text \<open>
  C8, as stated: \<open>deleteUser\<close> never removes the record and changes no field but
  \<open>isActive\<close>. The NestJS service removes the row, after which it cannot be found;
  and the Express service's update also moves \<open>updatedAt\<close>, here from 1 to 99.
\<close>

theorem deleteUser_counterexample:
  "nest_deleteUser [sample_nest_user] ''7'' = Inr []
   \<and> findOne_by_id [] ''7'' = None
   \<and> deleteUser sample_collection ''ann'' 99 =
       Inr (True, sample_collection\<lparr>docs := (docs sample_collection)
          (''ann'' := Some ((sample_doc ''ann'' True ''admin'')\<lparr>d_isActive := False,
                                                                  d_updatedAt := 99\<rparr>))\<rparr>)
   \<and> d_updatedAt (sample_doc ''ann'' True ''admin'') = 1"
  by (simp add: nest_deleteUser_def nest_getUserById_def findOne_by_id_def remove_entity_def
      sample_nest_user_def deleteUser_def findByIdAndUpdate_def sample_collection_def
      sample_doc_def Let_def)

text \<open>
  C8, amended. In the Express service, for an id with a stored record on which the
  store answers, \<open>deleteUser\<close> returns true, sets that record's \<open>isActive\<close> to false and
  its \<open>updatedAt\<close> to the current time, changes no other field and no other record,
  and the record is still found afterwards. In the NestJS service, for an id with a
  row, \<open>deleteUser\<close> removes the rows with that id, and the id is no longer found.
\<close>

theorem deleteUser_soft_express_hard_nest:
  "(docs coll i = Some d \<and> query_error coll i = None \<longrightarrow>
      deleteUser coll i now =
        Inr (True, coll\<lparr>docs := (docs coll)(i := Some (d\<lparr>d_isActive := False,
                                                         d_updatedAt := now\<rparr>))\<rparr>)
      \<and> findById (coll\<lparr>docs := (docs coll)(i := Some (d\<lparr>d_isActive := False,
                                                         d_updatedAt := now\<rparr>))\<rparr>) i
          = Inr (Some (d\<lparr>d_isActive := False, d_updatedAt := now\<rparr>)))
   \<and> (k \<in> set (map nu_id repo) \<longrightarrow>
      nest_deleteUser repo k = Inr (filter (\<lambda>u. nu_id u \<noteq> k) repo)
      \<and> findOne_by_id (filter (\<lambda>u. nu_id u \<noteq> k) repo) k = None)"
proof -
  have "findOne_by_id (filter (\<lambda>u. nu_id u \<noteq> k) repo) k = None"
    by (auto simp: findOne_by_id_None)
  then show ?thesis
    using nest_deleteUser_removes [of k repo]
    by (simp add: deleteUser_def findByIdAndUpdate_def findById_def Let_def)
qed

theorem deleteUser_soft_express_hard_nest_witness:
  "deleteUser sample_collection ''ann'' 99 =
     Inr (True, sample_collection\<lparr>docs := (docs sample_collection)
        (''ann'' := Some ((sample_doc ''ann'' True ''admin'')\<lparr>d_isActive := False,
                                                                d_updatedAt := 99\<rparr>))\<rparr>)
   \<and> nest_deleteUser [sample_nest_user] ''7'' = Inr []"
  using deleteUser_soft_express_hard_nest [where coll = sample_collection and i = "''ann''"
      and d = "sample_doc ''ann'' True ''admin''" and now = 99 and k = "''7''"
      and repo = "[sample_nest_user]"]
  by (simp add: sample_collection_def sample_nest_user_def)

section \<open>Serialised forms and the password hook\<close>

text \<open>
  C9. Whatever the object, the output of the Mongoose \<open>toJSON\<close> transform has no
  \<open>password\<close> key, the output of the TypeORM entity's \<open>toJSON\<close> has none of the keys
  \<open>password\<close>, \<open>verificationToken\<close> and \<open>resetPasswordToken\<close>, and the output of the
  controller's \<open>sanitizeUser\<close> has no \<open>passwordHash\<close> key.
\<close>

theorem serialisers_drop_credentials:
  "''password'' \<notin> keys (userSchema_toJSON_transform doc ret)
   \<and> ''password'' \<notin> keys (User_toJSON this)
   \<and> ''verificationToken'' \<notin> keys (User_toJSON this)
   \<and> ''resetPasswordToken'' \<notin> keys (User_toJSON this)
   \<and> ''passwordHash'' \<notin> keys (sanitizeUser user)"
  by (auto simp: keys_def userSchema_toJSON_transform_def User_toJSON_def sanitizeUser_def
      delete_property_def rest_without_def)

text \<open>
  C10. The hook leaves a password that starts with \<open>$2b$\<close> exactly as supplied (the
  entity is unchanged), and replaces any other non-empty password by the result of
  \<open>bcrypt.hash\<close> on it with 12 rounds; since that result starts with \<open>$2b$\<close>, as the
  package's hashes do, it is not the input itself.
\<close>

theorem hashPassword_prefix_gate:
  "(u_password this = Some pw \<and> startsWith pw ''$2b$'' \<longrightarrow> hashPassword h this = this)
   \<and> (u_password this = Some pw \<and> pw \<noteq> [] \<and> \<not> startsWith pw ''$2b$'' \<longrightarrow>
        hashPassword h this = this\<lparr>u_password := Some (h pw 12)\<rparr>
        \<and> (startsWith (h pw 12) ''$2b$'' \<longrightarrow> u_password (hashPassword h this) \<noteq> Some pw))"
  by (auto simp: hashPassword_def)

theorem hashPassword_prefix_gate_witness:
  "hashPassword sample_hash (user_with (Some ''$2b$secret'') []) = user_with (Some ''$2b$secret'') []
   \<and> u_password (hashPassword sample_hash (user_with (Some ''hunter22'') []))
       = Some ''$2b$12$22retnuh''
   \<and> u_password (hashPassword sample_hash (user_with (Some ''hunter22'') [])) \<noteq> Some ''hunter22''"
  using hashPassword_prefix_gate [of "user_with (Some ''$2b$secret'') []" "''$2b$secret''" sample_hash]
   hashPassword_prefix_gate [of "user_with (Some ''hunter22'') []" "''hunter22''" sample_hash]
  by (simp add: user_with_def startsWith_def sample_hash_def)

end
